theory Spec2Isabelle
  imports Complex_Main "HOL-Library.Word"
begin

section \<open>Strings of the platform\<close>

text \<open>
  A JavaScript string is a sequence of 16-bit UTF-16 code units; \<open>length\<close> counts code
  units. ASCII literals of the source are written with \<open>js\<close>.
\<close>

type_synonym jschar = "16 word"
type_synonym jsstring = "jschar list"

definition js :: "string \<Rightarrow> jsstring" where
  "js s = map (\<lambda>c. of_nat (of_char c)) s"

definition isHighSurrogate :: "jschar \<Rightarrow> bool" where
  "isHighSurrogate c = (0xD800 \<le> c \<and> c \<le> 0xDBFF)"

definition isLowSurrogate :: "jschar \<Rightarrow> bool" where
  "isLowSurrogate c = (0xDC00 \<le> c \<and> c \<le> 0xDFFF)"

text \<open>
  \<open>new TextEncoder().encode(value).length\<close>: the number of bytes of the UTF-8 encoding.
  A code unit below U+0080 takes one byte, below U+0800 two, a surrogate pair four, every
  other unit three (an unpaired surrogate is encoded as U+FFFD, three bytes).
\<close>

fun utf8Length :: "jsstring \<Rightarrow> nat" where
  "utf8Length [] = 0"
| "utf8Length [c] = (if c < 0x80 then 1 else if c < 0x800 then 2 else 3)"
| "utf8Length (c # d # cs) =
     (if c < 0x80 then 1 + utf8Length (d # cs)
      else if c < 0x800 then 2 + utf8Length (d # cs)
      else if isHighSurrogate c \<and> isLowSurrogate d then 4 + utf8Length cs
      else 3 + utf8Length (d # cs))"

section \<open>Counting primitives\<close>

record Counts =
  chars :: nat
  bytes :: nat

text \<open>
  \<open>calculateCounts(value)\<close>. The test \<open>typeof window === "undefined"\<close> reads the
  environment: \<open>windowDefined\<close> is \<open>True\<close> in a browser and \<open>False\<close> where the
  component is rendered without a window object.
\<close>

definition calculateCounts :: "bool \<Rightarrow> jsstring \<Rightarrow> Counts" where
  "calculateCounts windowDefined v =
     (if v = [] then \<lparr>chars = 0, bytes = 0\<rparr>
      else let chars = length v;
               bytes = (if \<not> windowDefined then chars else utf8Length v)
           in \<lparr>chars = chars, bytes = bytes\<rparr>)"

text \<open>
  \<open>approximateTokensFromText(text)\<close>: \<open>Math.max(1, Math.ceil(bytes / 4))\<close>, with the
  same test of the environment.
\<close>

definition approximateTokensFromText :: "bool \<Rightarrow> jsstring \<Rightarrow> nat" where
  "approximateTokensFromText windowDefined text =
     (if text = [] then 0
      else let bytes = (if \<not> windowDefined then length text else utf8Length text)
           in max 1 (nat \<lceil>real bytes / 4\<rceil>))"

definition isAscii :: "jsstring \<Rightarrow> bool" where
  "isAscii s = list_all (\<lambda>c. c < 0x80) s"

section \<open>Approximate tokenizer\<close>

text \<open>
  The character classes of the pattern
  \<^verbatim>\<open>/\s+|[A-Za-z0-9_\-"'@]+|[^\sA-Za-z0-9_\-"'@]+/g\<close>.
  \<open>\s\<close> is the platform's white space and line terminators.
\<close>

definition isSpace :: "jschar \<Rightarrow> bool" where
  "isSpace c =
     (c = 0x09 \<or> c = 0x0A \<or> c = 0x0B \<or> c = 0x0C \<or> c = 0x0D \<or> c = 0x20 \<or> c = 0xA0
      \<or> c = 0x1680 \<or> (0x2000 \<le> c \<and> c \<le> 0x200A) \<or> c = 0x2028 \<or> c = 0x2029
      \<or> c = 0x202F \<or> c = 0x205F \<or> c = 0x3000 \<or> c = 0xFEFF)"

definition isAlnum :: "jschar \<Rightarrow> bool" where
  "isAlnum c = ((0x41 \<le> c \<and> c \<le> 0x5A) \<or> (0x61 \<le> c \<and> c \<le> 0x7A) \<or> (0x30 \<le> c \<and> c \<le> 0x39))"

definition isWordChar :: "jschar \<Rightarrow> bool" where
  "isWordChar c = (isAlnum c \<or> c = 0x5F \<or> c = 0x2D \<or> c = 0x22 \<or> c = 0x27 \<or> c = 0x40)"

definition isOtherChar :: "jschar \<Rightarrow> bool" where
  "isOtherChar c = (\<not> (isSpace c \<or> isWordChar c))"

text \<open>
  One match of the pattern at the head of the remaining text: the alternatives are tried
  in their order, each one a greedy run. The empty list stands for no match here.
\<close>

definition matchAt :: "jsstring \<Rightarrow> jsstring" where
  "matchAt s =
     (if takeWhile isSpace s \<noteq> [] then takeWhile isSpace s
      else if takeWhile isWordChar s \<noteq> [] then takeWhile isWordChar s
      else takeWhile isOtherChar s)"

record Token =
  tokId :: "nat option"
  tokText :: jsstring
  tokStart :: nat
  tokEnd :: nat

text \<open>
  The loop \<open>while ((m = regex.exec(text)))\<close> of \<open>simpleTokenize\<close>. \<open>pos\<close> is the
  index the search continues from (\<open>lastIndex\<close>), \<open>rest\<close> the text from there on;
  a position where the pattern does not match is passed over, as \<open>exec\<close> does.
  \<open>idMap\<close> and \<open>nextId\<close> are the loop's variables.
\<close>

function tokenizeLoop :: "(jsstring \<rightharpoonup> nat) \<Rightarrow> nat \<Rightarrow> nat \<Rightarrow> jsstring \<Rightarrow> Token list" where
  "tokenizeLoop idMap nextId pos rest =
     (if rest = [] then []
      else let tokenText = matchAt rest in
        if tokenText = [] then tokenizeLoop idMap nextId (pos + 1) (tl rest)
        else let n = length tokenText in
          if list_all isSpace tokenText
          then \<lparr>tokId = None, tokText = tokenText, tokStart = pos, tokEnd = pos + n\<rparr>
                 # tokenizeLoop idMap nextId (pos + n) (drop n rest)
          else let idMap' = (if idMap tokenText = None then idMap(tokenText \<mapsto> nextId) else idMap);
                   nextId' = (if idMap tokenText = None then nextId + 1 else nextId)
               in \<lparr>tokId = idMap' tokenText, tokText = tokenText, tokStart = pos, tokEnd = pos + n\<rparr>
                    # tokenizeLoop idMap' nextId' (pos + n) (drop n rest))"
  by pat_completeness auto
termination
  by (relation "measure (\<lambda>(idMap, nextId, pos, rest). length rest)") auto

declare tokenizeLoop.simps [simp del]

definition simpleTokenize :: "jsstring \<Rightarrow> Token list" where
  "simpleTokenize t = (if t = [] then [] else tokenizeLoop Map.empty 1 0 t)"

section \<open>Parsed values and the platform's JSON serialisation\<close>

text \<open>
  The value \<open>JSON.parse\<close> returns. An object is the list of its own properties in
  enumeration order. \<open>JNumber\<close> carries an integer from \<open>- 2 ^ 53\<close> to \<open>2 ^ 53 - 1\<close>,
  a 54-bit word read as two's complement: each of them is a number of the platform, and
  \<open>String\<close> and \<open>JSON.stringify\<close> print it as its decimal digits. Every other number
  (a fraction, a larger magnitude) is floating point and has no value in this model.
\<close>

datatype json =
    JNull
  | JBool bool
  | JNumber "54 word"
  | JString jsstring
  | JArray "json list"
  | JObject "(jsstring \<times> json) list"

fun digitsOf :: "nat \<Rightarrow> jsstring" where
  "digitsOf n = (if n < 10 then [of_nat (48 + n)] else digitsOf (n div 10) @ [of_nat (48 + n mod 10)])"

declare digitsOf.simps [simp del]

definition numberToString :: "54 word \<Rightarrow> jsstring" where
  "numberToString n =
     (if sint n < 0 then 0x2D # digitsOf (nat (- sint n)) else digitsOf (nat (sint n)))"

definition nl :: jsstring where
  "nl = [0x0A]"

definition repeat :: "jsstring \<Rightarrow> nat \<Rightarrow> jsstring" where
  "repeat s n = concat (replicate n s)"

text \<open>\<open>Array.prototype.join\<close>, \<open>String.prototype.split\<close> on one code unit.\<close>

fun joinWith :: "jsstring \<Rightarrow> jsstring list \<Rightarrow> jsstring" where
  "joinWith sep [] = []"
| "joinWith sep [x] = x"
| "joinWith sep (x # y # ys) = x @ sep @ joinWith sep (y # ys)"

fun splitOn :: "jschar \<Rightarrow> jsstring \<Rightarrow> jsstring list" where
  "splitOn d [] = [[]]"
| "splitOn d (c # cs) =
     (if c = d then [] # splitOn d cs
      else (case splitOn d cs of [] \<Rightarrow> [[c]] | l # ls \<Rightarrow> (c # l) # ls))"

text \<open>\<open>QuoteJSONString\<close>, the way \<open>JSON.stringify\<close> writes a string.\<close>

definition hexDigit :: "nat \<Rightarrow> jschar" where
  "hexDigit n = (if n < 10 then of_nat (48 + n) else of_nat (87 + n))"

definition unicodeEscape :: "jschar \<Rightarrow> jsstring" where
  "unicodeEscape c =
     [0x5C, 0x75, hexDigit (unat c div 4096), hexDigit (unat c div 256 mod 16),
      hexDigit (unat c div 16 mod 16), hexDigit (unat c mod 16)]"

definition escapeUnit :: "jschar \<Rightarrow> jsstring" where
  "escapeUnit c =
     (if c = 0x08 then [0x5C, 0x62]
      else if c = 0x09 then [0x5C, 0x74]
      else if c = 0x0A then [0x5C, 0x6E]
      else if c = 0x0C then [0x5C, 0x66]
      else if c = 0x0D then [0x5C, 0x72]
      else if c = 0x22 then [0x5C, 0x22]
      else if c = 0x5C then [0x5C, 0x5C]
      else if c < 0x20 then unicodeEscape c
      else [c])"

fun quoteUnits :: "jsstring \<Rightarrow> jsstring" where
  "quoteUnits [] = []"
| "quoteUnits [c] =
     (if isHighSurrogate c \<or> isLowSurrogate c then unicodeEscape c else escapeUnit c)"
| "quoteUnits (c # d # cs) =
     (if isHighSurrogate c \<and> isLowSurrogate d then c # d # quoteUnits cs
      else if isHighSurrogate c \<or> isLowSurrogate c then unicodeEscape c @ quoteUnits (d # cs)
      else escapeUnit c @ quoteUnits (d # cs))"

definition quoteJSONString :: "jsstring \<Rightarrow> jsstring" where
  "quoteJSONString s = 0x22 # quoteUnits s @ [0x22]"

text \<open>
  \<open>JSON.stringify(value, replacer, space)\<close> on a parsed value. \<open>gap\<close> is the
  indentation unit, \<open>ind\<close> the current indentation. The replacers of this program
  return every value that is not a string as it is, so a replacer is given by what it
  does to a string value \<open>rep\<close>; property names do not pass through it.
\<close>

fun serializeJSON :: "(jsstring \<Rightarrow> jsstring) \<Rightarrow> jsstring \<Rightarrow> jsstring \<Rightarrow> json \<Rightarrow> jsstring" where
  "serializeJSON rep gap ind JNull = js ''null''"
| "serializeJSON rep gap ind (JBool b) = (if b then js ''true'' else js ''false'')"
| "serializeJSON rep gap ind (JNumber n) = numberToString n"
| "serializeJSON rep gap ind (JString s) = quoteJSONString (rep s)"
| "serializeJSON rep gap ind (JArray items) =
     (let partial = map (\<lambda>item. serializeJSON rep gap (ind @ gap) item) items in
      if partial = [] then js ''[]''
      else if gap = [] then js ''['' @ joinWith (js '','') partial @ js '']''
      else js ''['' @ nl @ ind @ gap @ joinWith (js '','' @ nl @ ind @ gap) partial
             @ nl @ ind @ js '']'')"
| "serializeJSON rep gap ind (JObject entries) =
     (let partial = map (\<lambda>(key, val).
            quoteJSONString key @ js '':'' @ (if gap = [] then [] else js '' '')
              @ serializeJSON rep gap (ind @ gap) val) entries in
      if partial = [] then js ''{}''
      else if gap = [] then js ''{'' @ joinWith (js '','') partial @ js ''}''
      else js ''{'' @ nl @ ind @ gap @ joinWith (js '','' @ nl @ ind @ gap) partial
             @ nl @ ind @ js ''}'')"

definition gapOf :: "nat option \<Rightarrow> jsstring" where
  "gapOf indent = (case indent of None \<Rightarrow> [] | Some n \<Rightarrow> replicate (min n 10) 0x20)"

definition JSON_stringify :: "(jsstring \<Rightarrow> jsstring) \<Rightarrow> nat option \<Rightarrow> json \<Rightarrow> jsstring" where
  "JSON_stringify rep indent v = serializeJSON rep (gapOf indent) [] v"

section \<open>Token-aware quoting\<close>

text \<open>The test \<^verbatim>\<open>/^[a-zA-Z0-9_-]+$/.test(value)\<close>.\<close>

definition isBareChar :: "jschar \<Rightarrow> bool" where
  "isBareChar c =
     ((0x61 \<le> c \<and> c \<le> 0x7A) \<or> (0x41 \<le> c \<and> c \<le> 0x5A) \<or> (0x30 \<le> c \<and> c \<le> 0x39)
      \<or> c = 0x5F \<or> c = 0x2D)"

definition bareWordPattern :: "jsstring \<Rightarrow> bool" where
  "bareWordPattern s = (s \<noteq> [] \<and> list_all isBareChar s)"

text \<open>
  \<open>word.toLowerCase()\<close> on the letters A to Z. No code unit outside ASCII is mapped
  to a letter of a reserved word by the platform's case mapping, so on every string
  \<open>isReservedYamlWord\<close> below answers as the source does.
\<close>

definition toLowerCase :: "jsstring \<Rightarrow> jsstring" where
  "toLowerCase s = map (\<lambda>c. if 0x41 \<le> c \<and> c \<le> 0x5A then c + 0x20 else c) s"

definition reserved :: "jsstring list" where
  "reserved = [js ''true'', js ''false'', js ''null'', js ''yes'', js ''no'', js ''on'',
               js ''off'', js ''true'', js ''~'']"

definition isReservedYamlWord :: "jsstring \<Rightarrow> bool" where
  "isReservedYamlWord word = (toLowerCase word \<in> set reserved)"

text \<open>
  The rule in the words of the specification: one or more ASCII letters, digits,
  underscores or hyphens and nothing else, and the lowercased form not a reserved word.
\<close>

definition bareWordEligible :: "jsstring \<Rightarrow> bool" where
  "bareWordEligible s =
     (s \<noteq> []
      \<and> set s \<subseteq> {0x41 .. 0x5A} \<union> {0x61 .. 0x7A} \<union> {0x30 .. 0x39} \<union> {0x5F, 0x2D}
      \<and> toLowerCase s \<notin> {js ''true'', js ''false'', js ''null'', js ''yes'', js ''no'',
                            js ''on'', js ''off'', js ''~''})"

section \<open>YAML-lite\<close>

definition isObjectValue :: "json \<Rightarrow> bool" where
  "isObjectValue v = (case v of JArray _ \<Rightarrow> True | JObject _ \<Rightarrow> True | _ \<Rightarrow> False)"

definition replaceNewlines :: "jsstring \<Rightarrow> jsstring \<Rightarrow> jsstring" where
  "replaceNewlines r s = concat (map (\<lambda>c. if c = 0x0A then r else [c]) s)"

fun jsonToYamlLite :: "json \<Rightarrow> nat \<Rightarrow> bool \<Rightarrow> jsstring" where
  "jsonToYamlLite JNull indent tokenAware = js ''null''"
| "jsonToYamlLite (JBool b) indent tokenAware = (if b then js ''true'' else js ''false'')"
| "jsonToYamlLite (JNumber n) indent tokenAware = numberToString n"
| "jsonToYamlLite (JString s) indent tokenAware =
     (if tokenAware \<and> bareWordPattern s \<and> \<not> isReservedYamlWord s then s
      else quoteJSONString s)"
| "jsonToYamlLite (JArray items) indent tokenAware =
     (if items = [] then js ''[]''
      else joinWith nl (map (\<lambda>item.
        let nested = jsonToYamlLite item (indent + 1) tokenAware in
        if isObjectValue item \<and> 0x0A \<in> set nested
        then repeat (js ''  '') indent @ js ''- '' @ hd (splitOn 0x0A nested) @ nl
               @ joinWith nl (map (\<lambda>line. js ''  '' @ line) (tl (splitOn 0x0A nested)))
        else repeat (js ''  '') indent @ js ''- '' @ nested) items))"
| "jsonToYamlLite (JObject entries) indent tokenAware =
     (if entries = [] then js ''{}''
      else joinWith nl (map (\<lambda>(key, val).
        let nested = jsonToYamlLite val (indent + 1) tokenAware in
        if isObjectValue val
        then repeat (js ''  '') indent @ key @ js '':'' @ nl @ repeat (js ''  '') (indent + 1)
               @ replaceNewlines (nl @ repeat (js ''  '') (indent + 1)) nested
        else repeat (js ''  '') indent @ key @ js '': '' @ nested) entries))"


section \<open>Pretty and minified JSON\<close>

text \<open>
  The replacer of \<open>jsonStringify\<close>: a safe string is returned wrapped as
  \<^verbatim>\<open>__UNQUOTED__\<close>\<open>val\<close>\<^verbatim>\<open>__\<close>, every other value as it is.
\<close>

definition markUnquoted :: "jsstring \<Rightarrow> jsstring" where
  "markUnquoted val =
     (if bareWordPattern val \<and> \<not> isReservedYamlWord val
      then js ''__UNQUOTED__'' @ val @ js ''__'' else val)"

text \<open>
  \<^verbatim>\<open>.replace(/\"__UNQUOTED__(.+?)__\"/g, '$1')\<close>. The dot takes any code unit but a
  line terminator. \<open>lazyGroup\<close> is the group \<^verbatim>\<open>(.+?)\<close> followed by \<^verbatim>\<open>__"\<close>: it
  has taken \<open>acc\<close> and stops at the first place where the closing text follows.
\<close>

definition isLineTerminator :: "jschar \<Rightarrow> bool" where
  "isLineTerminator c = (c = 0x0A \<or> c = 0x0D \<or> c = 0x2028 \<or> c = 0x2029)"

fun stripPrefix :: "jsstring \<Rightarrow> jsstring \<Rightarrow> jsstring option" where
  "stripPrefix [] s = Some s"
| "stripPrefix (p # ps) [] = None"
| "stripPrefix (p # ps) (c # cs) = (if p = c then stripPrefix ps cs else None)"

fun lazyGroup :: "jsstring \<Rightarrow> jsstring \<Rightarrow> (jsstring \<times> jsstring) option" where
  "lazyGroup acc [] = None"
| "lazyGroup acc (c # cs) =
     (case stripPrefix [0x5F, 0x5F, 0x22] (c # cs) of
        Some rest \<Rightarrow> Some (acc, rest)
      | None \<Rightarrow> if isLineTerminator c then None else lazyGroup (acc @ [c]) cs)"

definition matchMarker :: "jsstring \<Rightarrow> (jsstring \<times> jsstring) option" where
  "matchMarker s =
     (case stripPrefix (0x22 # js ''__UNQUOTED__'') s of
        None \<Rightarrow> None
      | Some [] \<Rightarrow> None
      | Some (c # cs) \<Rightarrow> if isLineTerminator c then None else lazyGroup [c] cs)"

function replaceMarkers :: "jsstring \<Rightarrow> jsstring" where
  "replaceMarkers [] = []"
| "replaceMarkers (c # cs) =
     (case matchMarker (c # cs) of
        Some (g, rest) \<Rightarrow> g @ replaceMarkers rest
      | None \<Rightarrow> c # replaceMarkers cs)"
  by pat_completeness auto
termination
proof -
  have strip: "length r + length p = length s" if "stripPrefix p s = Some r" for p s r
    using that by (induction p s rule: stripPrefix.induct) (auto split: if_splits)
  have lazy: "length r < length s" if "lazyGroup acc s = Some (g, r)" for acc s g r
    using that
  proof (induction acc s rule: lazyGroup.induct)
    case (1 acc)
    then show ?case by simp
  next
    case (2 acc c cs)
    show ?case
    proof (cases "stripPrefix [0x5F, 0x5F, 0x22] (c # cs)")
      case None
      with 2 show ?thesis by (auto split: if_splits)
    next
      case (Some rest)
      then have "length rest + 3 = length (c # cs)"
        using strip by fastforce
      with 2 Some show ?thesis by simp
    qed
  qed
  have marker: "length r < length s" if "matchMarker s = Some (g, r)" for s g r
    using that unfolding matchMarker_def
    by (auto split: option.splits list.splits if_splits dest!: strip lazy)
  show ?thesis
    by (relation "measure length") (auto dest: marker)
qed

definition jsonStringify :: "json \<Rightarrow> bool \<Rightarrow> nat option \<Rightarrow> jsstring" where
  "jsonStringify v tokenAware indent =
     (if \<not> tokenAware then JSON_stringify (\<lambda>val. val) indent v
      else replaceMarkers (JSON_stringify markUnquoted indent v))"

section \<open>The exact-tokenizer endpoint\<close>

text \<open>
  \<open>POST\<close> of \<^verbatim>\<open>api/tokenize/route.ts\<close>. \<open>req.json()\<close> either throws or yields a
  parsed value; the cast to \<open>TokenizeRequestBody\<close> checks nothing, so the body is any
  parsed value. A property that is absent reads as \<open>undefined\<close>, here \<open>None\<close>.
  Reading a property of \<open>null\<close> throws a \<open>TypeError\<close>, which \<open>POST\<close> does not catch
  (its message is the engine's own).
\<close>

datatype body = InvalidBody | Body json

datatype thrown = ErrorObject jsstring | OtherThrown

text \<open>
  What is stored under a key of \<open>resultTokens\<close>: the empty array, or the result of
  \<open>ids.map\<close>. \<open>encoding.encode\<close> returns a \<open>Uint32Array\<close>, so its \<open>map\<close> makes a
  \<open>Uint32Array\<close> of the same length.
\<close>

datatype tokenValue = EmptyArray | Uint32Array "32 word list"

datatype payload =
    ErrorPayload jsstring
  | TokenizePayload jsstring "(jsstring \<times> tokenValue) list"

record response =
  status :: nat
  payload :: payload

definition destructure :: "json \<Rightarrow> thrown + (json option \<times> json option)" where
  "destructure b =
     (case b of
        JNull \<Rightarrow> Inl (ErrorObject (js ''Cannot destructure property of null''))
      | JObject entries \<Rightarrow> Inr (map_of entries (js ''model''), map_of entries (js ''texts''))
      | _ \<Rightarrow> Inr (None, None))"

definition truthy :: "json option \<Rightarrow> bool" where
  "truthy v =
     (case v of
        None \<Rightarrow> False
      | Some JNull \<Rightarrow> False
      | Some (JBool b) \<Rightarrow> b
      | Some (JNumber n) \<Rightarrow> n \<noteq> 0
      | Some (JString s) \<Rightarrow> s \<noteq> []
      | Some _ \<Rightarrow> True)"

definition isStringType :: "json option \<Rightarrow> bool" where
  "isStringType v = (case v of Some (JString _) \<Rightarrow> True | _ \<Rightarrow> False)"

definition isObjectType :: "json option \<Rightarrow> bool" where
  "isObjectType v = (case v of Some JNull \<Rightarrow> True | Some (JArray _) \<Rightarrow> True
                      | Some (JObject _) \<Rightarrow> True | _ \<Rightarrow> False)"

definition stringOf :: "json option \<Rightarrow> jsstring" where
  "stringOf v = (case v of Some (JString s) \<Rightarrow> s | _ \<Rightarrow> [])"

definition entriesOf :: "json option \<Rightarrow> (jsstring \<times> json) list" where
  "entriesOf v =
     (case v of
        Some (JObject entries) \<Rightarrow> entries
      | Some (JArray items) \<Rightarrow> zip (map digitsOf [0 ..< length items]) items
      | _ \<Rightarrow> [])"

text \<open>
  \<open>ids.map((id) => ...)\<close> on the \<open>Uint32Array\<close> of ids. \<open>decodeToken\<close> stands for
  \<open>encoding.decode_single_token_bytes\<close> followed by \<open>decoder.decode\<close>; it returns the text
  or throws. The object \<open>{ id, text }\<close> the callback returns is stored into the new
  \<open>Uint32Array\<close> as a number: it converts to NaN, which is stored as 0.
\<close>

fun mapIds :: "(32 word \<Rightarrow> thrown + jsstring) \<Rightarrow> 32 word list \<Rightarrow> thrown + 32 word list" where
  "mapIds decodeToken [] = Inr []"
| "mapIds decodeToken (tokenId # ids) =
     (case decodeToken tokenId of
        Inl e \<Rightarrow> Inl e
      | Inr tokenText \<Rightarrow>
          (case mapIds decodeToken ids of Inl e \<Rightarrow> Inl e | Inr r \<Rightarrow> Inr (0 # r)))"

text \<open>
  \<open>resultTokens[key] = v\<close> on the plain object \<open>resultTokens\<close>: the key \<open>__proto__\<close>
  sets the prototype and adds no property, every other key adds one (the keys of
  \<open>Object.entries\<close> are distinct and come in enumeration order). What an assignment
  does after the prototype has become a typed array, under a name that the typed array
  answers itself (\<open>length\<close>, a numeric name that is no index), is not modelled: here it
  adds the property like any other.
\<close>

definition assign :: "jsstring \<Rightarrow> tokenValue \<Rightarrow> (jsstring \<times> tokenValue) list
    \<Rightarrow> (jsstring \<times> tokenValue) list" where
  "assign key v resultTokens =
     (if key = js ''__proto__'' then resultTokens else resultTokens @ [(key, v)])"

text \<open>
  The loop over \<open>Object.entries(texts)\<close> inside \<open>try\<close>. \<open>encode\<close> stands for
  \<open>encoding.encode\<close> of the tokenizer library: it returns the ids or throws.
  \<open>get_encoding("cl100k_base")\<close>, which comes after every check of the request, is taken
  to return.
\<close>

fun tokenizeEntries ::
  "(json \<Rightarrow> thrown + 32 word list) \<Rightarrow> (32 word \<Rightarrow> thrown + jsstring)
     \<Rightarrow> (jsstring \<times> tokenValue) list \<Rightarrow> (jsstring \<times> json) list
     \<Rightarrow> thrown + (jsstring \<times> tokenValue) list" where
  "tokenizeEntries encode decodeToken resultTokens [] = Inr resultTokens"
| "tokenizeEntries encode decodeToken resultTokens ((key, txt) # others) =
     (if \<not> truthy (Some txt)
      then tokenizeEntries encode decodeToken (assign key EmptyArray resultTokens) others
      else (case encode txt of
              Inl e \<Rightarrow> Inl e
            | Inr ids \<Rightarrow>
                (case mapIds decodeToken ids of
                   Inl e \<Rightarrow> Inl e
                 | Inr tokens \<Rightarrow>
                     tokenizeEntries encode decodeToken
                       (assign key (Uint32Array tokens) resultTokens) others)))"

definition errorMessage :: "thrown \<Rightarrow> jsstring \<Rightarrow> jsstring" where
  "errorMessage err fallback = (case err of ErrorObject m \<Rightarrow> m | OtherThrown \<Rightarrow> fallback)"

definition POST ::
  "(json \<Rightarrow> thrown + 32 word list) \<Rightarrow> (32 word \<Rightarrow> thrown + jsstring) \<Rightarrow> body
     \<Rightarrow> thrown + response" where
  "POST encode decodeToken req =
     (case req of
        InvalidBody \<Rightarrow> Inr \<lparr>status = 400, payload = ErrorPayload (js ''Invalid JSON body'')\<rparr>
      | Body b \<Rightarrow>
          (case destructure b of
             Inl e \<Rightarrow> Inl e
           | Inr (model, texts) \<Rightarrow>
               if \<not> truthy model \<or> \<not> isStringType model
               then Inr \<lparr>status = 400, payload = ErrorPayload (js ''Missing or invalid model'')\<rparr>
               else if \<not> truthy texts \<or> \<not> isObjectType texts
               then Inr \<lparr>status = 400, payload = ErrorPayload (js ''Missing or invalid texts'')\<rparr>
               else if model \<noteq> Some (JString (js ''cl100k_base''))
               then Inr \<lparr>status = 400,
                         payload = ErrorPayload (js ''Unsupported model: '' @ stringOf model)\<rparr>
               else (case tokenizeEntries encode decodeToken [] (entriesOf texts) of
                       Inl err \<Rightarrow>
                         Inr \<lparr>status = 500,
                              payload = ErrorPayload (errorMessage err (js ''Tokenization failed''))\<rparr>
                     | Inr resultTokens \<Rightarrow>
                         Inr \<lparr>status = 200,
                              payload = TokenizePayload (stringOf model) resultTokens\<rparr>)))"

section \<open>Orchestration: parsing the input and running the converters\<close>

record Outputs =
  error :: jsstring
  prettyJson :: jsstring
  minifiedJson :: jsstring
  yaml :: jsstring
  toon :: jsstring
  toml :: jsstring

text \<open>\<open>String.prototype.trim\<close>: white space and line terminators go from both ends.\<close>

definition trim :: "jsstring \<Rightarrow> jsstring" where
  "trim s = rev (dropWhile isSpace (rev (dropWhile isSpace s)))"

text \<open>
  \<open>toToonEncoding\<close>; \<open>encodeToon\<close> is the encoder of the TOON library with the
  delimiter and key folding already chosen.
\<close>

definition toToonEncoding :: "(json \<Rightarrow> thrown + jsstring) \<Rightarrow> json \<Rightarrow> jsstring" where
  "toToonEncoding encodeToon parsed =
     (case encodeToon parsed of Inl err \<Rightarrow> [] | Inr encoded \<Rightarrow> encoded)"

text \<open>
  The \<open>useMemo\<close> callback of \<open>Home\<close> that derives the outputs from \<open>input\<close>.
  \<open>jsonParse\<close> is the platform's \<open>JSON.parse\<close>, \<open>encodeToon\<close> the encoder of the
  TOON library and \<open>jsonToToml\<close> the TOML converter of \<^verbatim>\<open>lib/utils/toml\<close>; each of
  them either returns or throws.
\<close>

definition convertOutputs ::
  "(jsstring \<Rightarrow> thrown + json) \<Rightarrow> (json \<Rightarrow> thrown + jsstring)
     \<Rightarrow> (json \<Rightarrow> bool \<Rightarrow> thrown + jsstring) \<Rightarrow> bool \<Rightarrow> jsstring \<Rightarrow> Outputs" where
  "convertOutputs jsonParse encodeToon jsonToToml showTokenAware input =
     (if trim input = []
      then \<lparr>error = [], prettyJson = [], minifiedJson = [], yaml = [], toon = [], toml = []\<rparr>
      else
        (case jsonParse input of
           Inl err \<Rightarrow>
             \<lparr>error = errorMessage err (js ''Invalid JSON''), prettyJson = [],
              minifiedJson = [], yaml = [], toon = [], toml = []\<rparr>
         | Inr parsed \<Rightarrow>
             (let pretty = jsonStringify parsed showTokenAware (Some 2);
                  minified = jsonStringify parsed showTokenAware None;
                  yamlText = jsonToYamlLite parsed 0 showTokenAware;
                  toonText = toToonEncoding encodeToon parsed
              in case jsonToToml parsed showTokenAware of
                   Inl err \<Rightarrow>
                     \<lparr>error = errorMessage err (js ''Invalid JSON''), prettyJson = [],
                      minifiedJson = [], yaml = [], toon = [], toml = []\<rparr>
                 | Inr tomlText \<Rightarrow>
                     \<lparr>error = [], prettyJson = pretty, minifiedJson = minified,
                      yaml = yamlText, toon = toonText, toml = tomlText\<rparr>)))"

section \<open>The tokenization effect of the page\<close>

text \<open>
  The \<open>useEffect\<close> of \<open>Home\<close> that requests exact tokens. Each execution of the effect
  that issues a request has its own variable \<open>cancelled\<close> and its own \<open>run()\<close>, which
  is suspended at one of its \<open>await\<close>s until the platform settles the promise. React
  calls the cleanup function the previous execution returned before it executes the
  effect again. The page is single-threaded: between two events nothing else runs.
\<close>

text \<open>
  \<open>Record<string, Token[]>\<close>, the type the page gives to the tokens of a payload; a
  \<open>Token\<close> there is an id and a text.
\<close>

type_synonym tokenTable = "(jsstring \<times> (nat \<times> jsstring) list) list"

datatype phase = AwaitFetch | AwaitErrorPayload | AwaitPayload | Finished

record Run =
  cancelled :: bool
  phase :: phase

record Page =
  exactTokens :: tokenTable
  isTokenizing :: bool
  tokenizeError :: jsstring
  runs :: "Run list"
  cleanup :: "nat option"

text \<open>
  The dependencies of the effect: the outputs that \<open>texts\<close> is built from, the model and
  the two switches.
\<close>

record Deps =
  outputs :: Outputs
  tokenizationModel :: jsstring
  showTokens :: bool
  showCounts :: bool

datatype rejection = AbortError | Rejected thrown

datatype event =
    EffectRuns Deps
  | FetchResolves nat bool
  | FetchRejects nat rejection
  | ErrorPayloadResolves nat "jsstring option"
  | PayloadResolves nat "tokenTable option"
  | PayloadRejects nat rejection

definition initialPage :: Page where
  "initialPage = \<lparr>exactTokens = [], isTokenizing = False, tokenizeError = [], runs = [],
                   cleanup = None\<rparr>"

text \<open>The cleanup function: \<open>cancelled = true; controller.abort()\<close>.\<close>

definition runCleanup :: "Page \<Rightarrow> Page" where
  "runCleanup p =
     (case cleanup p of
        None \<Rightarrow> p
      | Some i \<Rightarrow>
          p\<lparr>runs := (if i < length (runs p)
                      then (runs p)[i := (runs p ! i)\<lparr>cancelled := True\<rparr>] else runs p),
            cleanup := None\<rparr>)"

text \<open>The body of the effect up to the first \<open>await\<close> of \<open>run()\<close>.\<close>

definition effectBody :: "Deps \<Rightarrow> Page \<Rightarrow> Page" where
  "effectBody d p =
     (if tokenizationModel d \<noteq> js ''cl100k_base''
      then p\<lparr>exactTokens := [], isTokenizing := False, tokenizeError := [], cleanup := None\<rparr>
      else if \<not> showTokens d \<and> \<not> showCounts d
      then p\<lparr>exactTokens := [], isTokenizing := False, tokenizeError := [], cleanup := None\<rparr>
      else if prettyJson (outputs d) = [] \<and> minifiedJson (outputs d) = []
              \<and> yaml (outputs d) = [] \<and> toon (outputs d) = []
      then p\<lparr>exactTokens := [], isTokenizing := False, tokenizeError := [], cleanup := None\<rparr>
      else p\<lparr>isTokenizing := True, tokenizeError := [],
             runs := runs p @ [\<lparr>cancelled = False, phase = AwaitFetch\<rparr>],
             cleanup := Some (length (runs p))\<rparr>)"

text \<open>The \<open>finally\<close> block, then the end of \<open>run()\<close> number \<open>i\<close>.\<close>

definition finish :: "nat \<Rightarrow> Page \<Rightarrow> Page" where
  "finish i p =
     (let p' = (if \<not> cancelled (runs p ! i) then p\<lparr>isTokenizing := False\<rparr> else p)
      in p'\<lparr>runs := (runs p')[i := (runs p' ! i)\<lparr>phase := Finished\<rparr>]\<rparr>)"

text \<open>The \<open>catch\<close> block.\<close>

definition catchBlock :: "nat \<Rightarrow> rejection \<Rightarrow> Page \<Rightarrow> Page" where
  "catchBlock i err p =
     (if cancelled (runs p ! i) \<or> err = AbortError then finish i p
      else finish i
             (p\<lparr>exactTokens := [],
                tokenizeError :=
                  (case err of Rejected e \<Rightarrow> errorMessage e (js ''Failed to tokenize'')
                             | AbortError \<Rightarrow> js ''Failed to tokenize'')\<rparr>))"

text \<open>
  One event. A settlement that names no run, or a run that is not suspended at the
  matching \<open>await\<close>, is no event of the page and leaves it as it is.
\<close>

definition atPhase :: "Page \<Rightarrow> nat \<Rightarrow> phase \<Rightarrow> bool" where
  "atPhase p i ph = (i < length (runs p) \<and> phase (runs p ! i) = ph)"

fun step :: "Page \<Rightarrow> event \<Rightarrow> Page" where
  "step p (EffectRuns d) = effectBody d (runCleanup p)"
| "step p (FetchResolves i ok) =
     (if atPhase p i AwaitFetch
      then p\<lparr>runs := (runs p)[i := (runs p ! i)\<lparr>phase :=
                  (if ok then AwaitPayload else AwaitErrorPayload)\<rparr>]\<rparr>
      else p)"
| "step p (FetchRejects i err) = (if atPhase p i AwaitFetch then catchBlock i err p else p)"
| "step p (ErrorPayloadResolves i msg) =
     (if atPhase p i AwaitErrorPayload
      then finish i
             (if \<not> cancelled (runs p ! i)
              then p\<lparr>exactTokens := [],
                     tokenizeError :=
                       (case msg of None \<Rightarrow> js ''Failed to tokenize''
                        | Some m \<Rightarrow> if m = [] then js ''Failed to tokenize'' else m)\<rparr>
              else p)
      else p)"
| "step p (PayloadResolves i tokens) =
     (if atPhase p i AwaitPayload
      then finish i
             (if \<not> cancelled (runs p ! i)
              then p\<lparr>exactTokens := (case tokens of None \<Rightarrow> [] | Some t \<Rightarrow> t)\<rparr>
              else p)
      else p)"
| "step p (PayloadRejects i err) = (if atPhase p i AwaitPayload then catchBlock i err p else p)"

definition runEvents :: "event list \<Rightarrow> Page" where
  "runEvents evs = foldl step initialPage evs"

text \<open>The run an event settles a promise of.\<close>

fun settles :: "event \<Rightarrow> nat option" where
  "settles (EffectRuns d) = None"
| "settles (FetchResolves i ok) = Some i"
| "settles (FetchRejects i err) = Some i"
| "settles (ErrorPayloadResolves i msg) = Some i"
| "settles (PayloadResolves i tokens) = Some i"
| "settles (PayloadRejects i err) = Some i"

text \<open>
  Run \<open>i\<close> is superseded once the effect has been executed again after it: it exists
  and it is no longer the run whose cleanup function React holds.
\<close>

definition superseded :: "Page \<Rightarrow> nat \<Rightarrow> bool" where
  "superseded p i = (i < length (runs p) \<and> cleanup p \<noteq> Some i)"

text \<open>
  The invariant of the page: every run but the one whose cleanup function React holds has
  been cancelled, and that one has not.
\<close>

definition goodPage :: "Page \<Rightarrow> bool" where
  "goodPage p =
     ((\<forall>i < length (runs p). cleanup p \<noteq> Some i \<longrightarrow> cancelled (runs p ! i))
      \<and> (\<forall>i. cleanup p = Some i \<longrightarrow> i < length (runs p) \<and> \<not> cancelled (runs p ! i)))"

section \<open>Properties: counting\<close>

lemma utf8Length_ge_length: "length s \<le> utf8Length s"
  by (induction s rule: utf8Length.induct) auto

lemma utf8Length_ascii: "isAscii s \<Longrightarrow> utf8Length s = length s"
  by (induction s rule: utf8Length.induct) (auto simp: isAscii_def)

text \<open>
  Claim C7, as the code has it. \<open>calculateCounts\<close> is total and maps the empty string to
  zero characters and zero bytes. Where a window object exists it maps every string to its
  number of UTF-16 code units and the length of its UTF-8 encoding; where none exists the
  byte count is the character count. In both cases bytes are at least characters, and equal
  to them on an ASCII-only string; the one-unit string U+00E9 has one character, and two
  bytes where a window object exists.
\<close>

theorem calculateCounts_spec:
  "calculateCounts windowDefined [] = \<lparr>chars = 0, bytes = 0\<rparr>
   \<and> calculateCounts True s = \<lparr>chars = length s, bytes = utf8Length s\<rparr>
   \<and> calculateCounts False s = \<lparr>chars = length s, bytes = length s\<rparr>
   \<and> chars (calculateCounts windowDefined s) \<le> bytes (calculateCounts windowDefined s)
   \<and> (isAscii s \<longrightarrow> bytes (calculateCounts windowDefined s) = chars (calculateCounts windowDefined s))
   \<and> chars (calculateCounts windowDefined [0xE9]) = 1
   \<and> bytes (calculateCounts True [0xE9]) = 2"
  using utf8Length_ge_length [of s] utf8Length_ascii [of s]
  by (cases "s = []") (auto simp: calculateCounts_def Let_def)

theorem calculateCounts_spec_witness:
  "isAscii (js ''{}'')
   \<and> calculateCounts True (js ''{}'') = \<lparr>chars = 2, bytes = 2\<rparr>
   \<and> calculateCounts True [0x4E, 0xE9, 0xD83D, 0xDE00] = \<lparr>chars = 4, bytes = 7\<rparr>
   \<and> calculateCounts False [0x4E, 0xE9, 0xD83D, 0xDE00] = \<lparr>chars = 4, bytes = 4\<rparr>"
  using calculateCounts_spec [of True "js ''{}''"]
    calculateCounts_spec [of True "[0x4E, 0xE9, 0xD83D, 0xDE00]"]
  by (simp add: js_def isAscii_def isHighSurrogate_def isLowSurrogate_def)

text \<open>
  Claim C7 as stated fails where no window object exists: the byte count of U+00E9 is then
  1, while its UTF-8 encoding has 2 bytes.
\<close>

theorem calculateCounts_no_window_counterexample:
  "bytes (calculateCounts False [0xE9]) = 1 \<and> utf8Length [0xE9] = 2"
  by (simp add: calculateCounts_def)

text \<open>
  Claim C5, as the code has it. \<open>approximateTokensFromText\<close> returns 0 for the empty
  string; for a non-empty string it returns the maximum of 1 and the ceiling of a quarter
  of the UTF-8 byte length where a window object exists, and of a quarter of the number of
  code units where none exists; the result for a non-empty string is at least 1.
\<close>

theorem approximateTokensFromText_spec:
  "approximateTokensFromText windowDefined [] = 0
   \<and> (s \<noteq> [] \<longrightarrow>
        approximateTokensFromText True s = max 1 (nat \<lceil>real (utf8Length s) / 4\<rceil>)
        \<and> approximateTokensFromText False s = max 1 (nat \<lceil>real (length s) / 4\<rceil>)
        \<and> 1 \<le> approximateTokensFromText windowDefined s)"
  by (simp add: approximateTokensFromText_def Let_def)

theorem approximateTokensFromText_spec_witness:
  "approximateTokensFromText True [0xE9, 0xE9, 0xE9] = 2
   \<and> approximateTokensFromText False [0xE9, 0xE9, 0xE9] = 1
   \<and> approximateTokensFromText True (js ''{\"a\":1}'') = 2"
  using approximateTokensFromText_spec [of True "[0xE9, 0xE9, 0xE9]"]
    approximateTokensFromText_spec [of True "js ''{\"a\":1}''"]
  by (simp add: js_def)

text \<open>
  Claim C5 as stated fails where no window object exists: three units U+00E9 give 1, while
  the formula on the UTF-8 byte length (6 bytes) gives 2.
\<close>

theorem approximateTokensFromText_no_window_counterexample:
  "approximateTokensFromText False [0xE9, 0xE9, 0xE9] = 1
   \<and> max 1 (nat \<lceil>real (utf8Length [0xE9, 0xE9, 0xE9]) / 4\<rceil>) = 2"
  by (simp add: approximateTokensFromText_def)

section \<open>Properties: the approximate tokenizer\<close>

lemma takeWhile_drop_id: "takeWhile P s @ drop (length (takeWhile P s)) s = s"
  by (simp add: dropWhile_eq_drop [symmetric])

lemma matchAt_prefix: "matchAt s @ drop (length (matchAt s)) s = s"
  by (simp add: matchAt_def takeWhile_drop_id)

lemma matchAt_nonempty: "s \<noteq> [] \<Longrightarrow> matchAt s \<noteq> []"
  by (cases s) (auto simp: matchAt_def isOtherChar_def)

lemma concat_tokenizeLoop: "concat (map tokText (tokenizeLoop idMap nextId pos rest)) = rest"
proof (induction idMap nextId pos rest rule: tokenizeLoop.induct)
  case (1 idMap nextId pos rest)
  show ?case
  proof (cases "rest = []")
    case True
    then show ?thesis by (subst tokenizeLoop.simps) simp
  next
    case False
    then have "matchAt rest \<noteq> []" by (rule matchAt_nonempty)
    with 1 False matchAt_prefix [of rest] show ?thesis
      by (subst tokenizeLoop.simps) (simp add: Let_def)
  qed
qed

text \<open>
  Claim C6. For every input string the texts of the tokens of \<open>simpleTokenize\<close>,
  concatenated in order, are the input string; the empty string has no tokens.
\<close>

theorem simpleTokenize_lossless:
  "concat (map tokText (simpleTokenize s)) = s \<and> simpleTokenize [] = []"
  by (simp add: simpleTokenize_def concat_tokenizeLoop)

theorem simpleTokenize_lossless_witness:
  "map tokText (simpleTokenize (js ''a: [1, 22]'')) =
     [js ''a'', js '':'', js '' '', js ''['', js ''1'', js '','', js '' '', js ''22'', js '']'']
   \<and> concat (map tokText (simpleTokenize (js ''a: [1, 22]''))) = js ''a: [1, 22]''"
proof -
  have "map tokText (simpleTokenize (js ''a: [1, 22]'')) =
     [js ''a'', js '':'', js '' '', js ''['', js ''1'', js '','', js '' '', js ''22'', js '']'']"
    by code_simp
  with simpleTokenize_lossless [of "js ''a: [1, 22]''"] show ?thesis by simp
qed

section \<open>Properties: the endpoint\<close>

text \<open>
  Claim C8. For every request whose body yields a model identifier (every body but
  \<open>null\<close>, where reading the property throws) that is not the string \<open>cl100k_base\<close>,
  \<open>POST\<close> answers with status 400 and a non-empty error message; the answer carries no
  tokens and does not depend on the tokenizer.
\<close>

theorem unsupported_model_rejected:
  assumes "destructure b = Inr (m, t)"
    and "m \<noteq> Some (JString (js ''cl100k_base''))"
  shows "\<exists>msg. msg \<noteq> [] \<and>
           POST encode decodeToken (Body b) =
             Inr \<lparr>status = 400, payload = ErrorPayload msg\<rparr>"
  using assms by (auto simp: POST_def js_def)

theorem unsupported_model_rejected_witness:
  "destructure (JObject [(js ''model'', JString (js ''not-a-model'')),
                          (js ''texts'', JObject [(js ''x'', JString (js ''hello''))])]) =
     Inr (Some (JString (js ''not-a-model'')), Some (JObject [(js ''x'', JString (js ''hello''))]))
   \<and> (\<exists>msg. msg \<noteq> [] \<and>
         POST (\<lambda>txt. Inr [15339]) (\<lambda>tokenId. Inr (js ''hello''))
           (Body (JObject [(js ''model'', JString (js ''not-a-model'')),
                           (js ''texts'', JObject [(js ''x'', JString (js ''hello''))])])) =
         Inr \<lparr>status = 400, payload = ErrorPayload msg\<rparr>)"
proof -
  have d: "destructure (JObject [(js ''model'', JString (js ''not-a-model'')),
                          (js ''texts'', JObject [(js ''x'', JString (js ''hello''))])]) =
     Inr (Some (JString (js ''not-a-model'')), Some (JObject [(js ''x'', JString (js ''hello''))]))"
    by (simp add: destructure_def js_def)
  have n: "Some (JString (js ''not-a-model'')) \<noteq> Some (JString (js ''cl100k_base''))"
    by (simp add: js_def)
  show ?thesis
    using d unsupported_model_rejected [OF d n] by simp
qed

section \<open>Properties: orchestration\<close>

lemma list_all_dropWhile: "list_all P (dropWhile P s) \<longleftrightarrow> list_all P s"
  by (induction s) auto

lemma trim_empty_iff: "trim s = [] \<longleftrightarrow> list_all isSpace s"
proof -
  have "trim s = [] \<longleftrightarrow> list_all isSpace (rev (dropWhile isSpace s))"
    by (simp add: trim_def dropWhile_eq_Nil_conv list_all_iff)
  also have "\<dots> \<longleftrightarrow> list_all isSpace (dropWhile isSpace s)"
    by (simp add: list_all_iff)
  finally show ?thesis by (simp add: list_all_dropWhile)
qed

text \<open>
  Claim C10. For every input that is empty or consists of white space only, the outputs
  are all the empty string and so is the error message, whatever the parser and the
  converters would do: none of them is consulted.
\<close>

theorem blank_input_gives_empty_outputs:
  "list_all isSpace input \<Longrightarrow>
   convertOutputs jsonParse encodeToon jsonToToml showTokenAware input =
     \<lparr>error = [], prettyJson = [], minifiedJson = [], yaml = [], toon = [], toml = []\<rparr>"
  by (simp add: convertOutputs_def trim_empty_iff)

theorem blank_input_gives_empty_outputs_witness:
  "list_all isSpace [0x20, 0x0A, 0x09]
   \<and> convertOutputs (\<lambda>t. Inl (ErrorObject (js ''Unexpected end of JSON input'')))
        (\<lambda>v. Inr (js ''x'')) (\<lambda>v a. Inr (js ''y'')) True [0x20, 0x0A, 0x09] =
     \<lparr>error = [], prettyJson = [], minifiedJson = [], yaml = [], toon = [], toml = []\<rparr>
   \<and> convertOutputs (\<lambda>t. Inl (ErrorObject (js ''Unexpected end of JSON input'')))
        (\<lambda>v. Inr (js ''x'')) (\<lambda>v a. Inr (js ''y'')) True [] =
     \<lparr>error = [], prettyJson = [], minifiedJson = [], yaml = [], toon = [], toml = []\<rparr>"
proof -
  have ws: "list_all isSpace [0x20, 0x0A, 0x09]" by (simp add: isSpace_def)
  have e: "list_all isSpace []" by simp
  show ?thesis
    using ws blank_input_gives_empty_outputs [OF ws] blank_input_gives_empty_outputs [OF e]
    by simp
qed

section \<open>Properties: the tokenization effect\<close>

lemma cancelled_phase_update:
  "cancelled (rs[i := (rs ! i)\<lparr>phase := ph\<rparr>] ! j) = cancelled (rs ! j)"
proof (cases "i < length rs")
  case True
  then show ?thesis by (cases "i = j") (simp_all add: nth_list_update)
next
  case False
  then show ?thesis by (simp add: list_update_beyond)
qed

lemma finish_runs:
  "length (runs (finish i p)) = length (runs p)"
  "cleanup (finish i p) = cleanup p"
  "cancelled (runs (finish i p) ! j) = cancelled (runs p ! j)"
  by (auto simp: finish_def Let_def cancelled_phase_update)

lemma goodPage_finish: "goodPage p \<Longrightarrow> goodPage (finish i p)"
  by (simp add: goodPage_def finish_runs)

lemma goodPage_view:
  "goodPage p \<Longrightarrow> goodPage (p\<lparr>exactTokens := x\<rparr>)"
  "goodPage p \<Longrightarrow> goodPage (p\<lparr>exactTokens := x, tokenizeError := y\<rparr>)"
  by (simp_all add: goodPage_def)

lemma goodPage_step: "goodPage p \<Longrightarrow> goodPage (step p e)"
proof (cases e)
  case (EffectRuns d)
  assume g: "goodPage p"
  have "goodPage (runCleanup p) \<and> cleanup (runCleanup p) = None"
    using g by (auto simp: goodPage_def runCleanup_def nth_list_update split: option.splits)
  then show ?thesis using EffectRuns
    by (auto simp: goodPage_def effectBody_def nth_append)
next
  case (FetchResolves i ok)
  assume "goodPage p"
  then show ?thesis using FetchResolves
    by (auto simp: goodPage_def cancelled_phase_update)
next
  case (FetchRejects i err)
  assume "goodPage p"
  then show ?thesis using FetchRejects
    by (auto simp: catchBlock_def intro!: goodPage_finish goodPage_view)
next
  case (ErrorPayloadResolves i msg)
  assume "goodPage p"
  then show ?thesis using ErrorPayloadResolves
    by (auto intro!: goodPage_finish goodPage_view)
next
  case (PayloadResolves i t)
  assume "goodPage p"
  then show ?thesis using PayloadResolves
    by (auto intro!: goodPage_finish goodPage_view)
next
  case (PayloadRejects i err)
  assume "goodPage p"
  then show ?thesis using PayloadRejects
    by (auto simp: catchBlock_def intro!: goodPage_finish goodPage_view)
qed

lemma goodPage_foldl: "goodPage p \<Longrightarrow> goodPage (foldl step p evs)"
  by (induction evs arbitrary: p) (auto simp: goodPage_step)

lemma goodPage_runEvents: "goodPage (runEvents evs)"
  unfolding runEvents_def by (rule goodPage_foldl) (simp add: goodPage_def initialPage_def)

lemma finish_view:
  "cancelled (runs p ! i) \<Longrightarrow>
   exactTokens (finish i p) = exactTokens p \<and> tokenizeError (finish i p) = tokenizeError p
   \<and> isTokenizing (finish i p) = isTokenizing p"
  by (simp add: finish_def)

lemma stale_step:
  "settles e = Some i \<Longrightarrow> cancelled (runs p ! i) \<Longrightarrow>
   exactTokens (step p e) = exactTokens p \<and> tokenizeError (step p e) = tokenizeError p
   \<and> isTokenizing (step p e) = isTokenizing p"
  by (cases e) (auto simp: catchBlock_def finish_view)

lemma effect_supersedes: "i < length (runs p) \<Longrightarrow> superseded (step p (EffectRuns d)) i"
  by (auto simp: superseded_def effectBody_def runCleanup_def split: option.splits)

lemma superseded_step: "superseded p i \<Longrightarrow> superseded (step p e) i"
proof (cases e)
  case (EffectRuns d)
  assume "superseded p i"
  then show ?thesis using EffectRuns effect_supersedes [of i p d] by (simp add: superseded_def)
next
  case (FetchResolves j ok)
  assume "superseded p i" then show ?thesis using FetchResolves by (auto simp: superseded_def)
next
  case (FetchRejects j err)
  assume "superseded p i" then show ?thesis using FetchRejects
    by (auto simp: superseded_def catchBlock_def finish_runs)
next
  case (ErrorPayloadResolves j msg)
  assume "superseded p i" then show ?thesis using ErrorPayloadResolves
    by (auto simp: superseded_def finish_runs)
next
  case (PayloadResolves j t)
  assume "superseded p i" then show ?thesis using PayloadResolves
    by (auto simp: superseded_def finish_runs)
next
  case (PayloadRejects j err)
  assume "superseded p i" then show ?thesis using PayloadRejects
    by (auto simp: superseded_def catchBlock_def finish_runs)
qed

text \<open>
  Claim C9. In every state the page reaches, by any sequence of events: executing the
  effect again supersedes every run there is; a superseded run stays superseded; an event
  that settles a promise of a superseded run changes neither the exact tokens nor the
  error message nor the busy flag; and when the payload of the run whose cleanup React
  holds arrives, its tokens become the exact tokens.
\<close>

theorem stale_result_never_applied:
  "(i < length (runs (runEvents evs)) \<longrightarrow> superseded (step (runEvents evs) (EffectRuns d)) i)
   \<and> (superseded (runEvents evs) i \<longrightarrow> superseded (step (runEvents evs) e') i)
   \<and> (superseded (runEvents evs) i \<and> settles e = Some i \<longrightarrow>
        exactTokens (step (runEvents evs) e) = exactTokens (runEvents evs)
        \<and> tokenizeError (step (runEvents evs) e) = tokenizeError (runEvents evs)
        \<and> isTokenizing (step (runEvents evs) e) = isTokenizing (runEvents evs))
   \<and> (cleanup (runEvents evs) = Some i \<and> atPhase (runEvents evs) i AwaitPayload \<longrightarrow>
        exactTokens (step (runEvents evs) (PayloadResolves i (Some t))) = t)"
proof -
  have g: "goodPage (runEvents evs)" by (rule goodPage_runEvents)
  have stale: "superseded (runEvents evs) i \<Longrightarrow> cancelled (runs (runEvents evs) ! i)"
    using g by (auto simp: superseded_def goodPage_def)
  have latest: "cleanup (runEvents evs) = Some i \<Longrightarrow> \<not> cancelled (runs (runEvents evs) ! i)"
    using g by (auto simp: goodPage_def)
  show ?thesis
    using stale latest stale_step [of e i "runEvents evs"]
      effect_supersedes [of i "runEvents evs" d] superseded_step [of "runEvents evs" i e']
    by (auto simp: finish_def Let_def)
qed

theorem stale_result_never_applied_witness:
  "superseded
     (runEvents
        [EffectRuns \<lparr>outputs = \<lparr>error = [], prettyJson = js ''1'', minifiedJson = js ''1'',
                               yaml = js ''1'', toon = js ''1'', toml = js ''1''\<rparr>,
                     tokenizationModel = js ''cl100k_base'', showTokens = True,
                     showCounts = True\<rparr>,
         EffectRuns \<lparr>outputs = \<lparr>error = [], prettyJson = js ''2'', minifiedJson = js ''2'',
                               yaml = js ''2'', toon = js ''2'', toml = js ''2''\<rparr>,
                     tokenizationModel = js ''cl100k_base'', showTokens = True,
                     showCounts = True\<rparr>,
         FetchResolves 1 True, PayloadResolves 1 (Some [(js ''pretty'', [(17, js ''2'')])]),
         FetchResolves 0 True]) 0
   \<and> exactTokens
       (step
          (runEvents
             [EffectRuns \<lparr>outputs = \<lparr>error = [], prettyJson = js ''1'', minifiedJson = js ''1'',
                                    yaml = js ''1'', toon = js ''1'', toml = js ''1''\<rparr>,
                          tokenizationModel = js ''cl100k_base'', showTokens = True,
                          showCounts = True\<rparr>,
              EffectRuns \<lparr>outputs = \<lparr>error = [], prettyJson = js ''2'', minifiedJson = js ''2'',
                                    yaml = js ''2'', toon = js ''2'', toml = js ''2''\<rparr>,
                          tokenizationModel = js ''cl100k_base'', showTokens = True,
                          showCounts = True\<rparr>,
              FetchResolves 1 True, PayloadResolves 1 (Some [(js ''pretty'', [(17, js ''2'')])]),
              FetchResolves 0 True])
          (PayloadResolves 0 (Some [(js ''pretty'', [(16, js ''1'')])]))) =
       [(js ''pretty'', [(17, js ''2'')])]"
  (is "superseded (runEvents ?evs) 0 \<and> exactTokens (step (runEvents ?evs) ?e) = ?t")
proof -
  have s: "superseded (runEvents ?evs) 0" by code_simp
  have e: "settles ?e = Some 0" by simp
  have t: "exactTokens (runEvents ?evs) = ?t" by code_simp
  from stale_result_never_applied [of 0 ?evs _ _ ?e] s e
  have "exactTokens (step (runEvents ?evs) ?e) = exactTokens (runEvents ?evs)"
    by blast
  with s t show ?thesis by simp
qed

section \<open>Properties: the bare-word rule\<close>
















section \<open>Properties: YAML-lite\<close>












section \<open>Properties: the JSON converters in token-aware mode\<close>

text \<open>
  Claim C1 at an input the code does not meet it on. The array holds one string, which has
  brackets in it, so the input holds no eligible string. With token-aware mode on the
  minified output is \<^verbatim>\<open>[[]]\<close>, the standard serialisation of another value, the
  array that holds the empty array: read back, the output is not the value it was made
  from. The post-pass takes the text of the string for a marker. With the mode off the
  converter is the standard serialisation, for every value.
\<close>

theorem jsonStringify_minified_marker_collision:
  "jsonStringify (JArray [JString (js ''__UNQUOTED__[]__'')]) True None
     = JSON_stringify (\<lambda>val. val) None (JArray [JArray []])
   \<and> JSON_stringify (\<lambda>val. val) None (JArray [JArray []]) = js ''[[]]''
   \<and> JArray [JString (js ''__UNQUOTED__[]__'')] \<noteq> JArray [JArray []]
   \<and> \<not> bareWordEligible (js ''__UNQUOTED__[]__'')
   \<and> jsonStringify v False indent = JSON_stringify (\<lambda>val. val) indent v"
proof -
  have "jsonStringify (JArray [JString (js ''__UNQUOTED__[]__'')]) True None
     = JSON_stringify (\<lambda>val. val) None (JArray [JArray []])"
    by code_simp
  moreover have "JSON_stringify (\<lambda>val. val) None (JArray [JArray []]) = js ''[[]]''"
    by code_simp
  moreover have "\<not> bareWordEligible (js ''__UNQUOTED__[]__'')"
    by (simp add: bareWordEligible_def js_def)
  ultimately show ?thesis
    by (simp add: jsonStringify_def)
qed

text \<open>
  Claim C3 at an input the code does not meet it on. The value of the property is a string
  that is not safe, and yet both the minified and the pretty output in token-aware mode
  hold it without its quotes and without the marker text it contains; the standard
  serialisation keeps it quoted.
\<close>

theorem jsonStringify_unquotes_unsafe_string:
  "jsonStringify (JObject [(js ''k'', JString (js ''__UNQUOTED__a b__''))]) True None
     = js ''{'' @ quoteJSONString (js ''k'') @ js '':a b}''
   \<and> jsonStringify (JObject [(js ''k'', JString (js ''__UNQUOTED__a b__''))]) True (Some 2)
     = js ''{'' @ nl @ js ''  '' @ quoteJSONString (js ''k'') @ js '': a b'' @ nl @ js ''}''
   \<and> JSON_stringify (\<lambda>val. val) None (JObject [(js ''k'', JString (js ''__UNQUOTED__a b__''))])
     = js ''{'' @ quoteJSONString (js ''k'') @ js '':''
         @ quoteJSONString (js ''__UNQUOTED__a b__'') @ js ''}''
   \<and> \<not> (bareWordPattern (js ''__UNQUOTED__a b__'')
          \<and> \<not> isReservedYamlWord (js ''__UNQUOTED__a b__''))"
  by code_simp

end
